theory Spec2Isabelle
  imports Complex_Main
begin

section \<open>JavaScript values used by the eligibility engine\<close>

text \<open>
  The eligibility engine of the portal lives twice in the repository, in
  \<^verbatim>\<open>server.js\<close> (\<^verbatim>\<open>app.post('/api/check-eligibility')\<close>) and in
  \<^verbatim>\<open>routes/eligibility.js\<close> (\<^verbatim>\<open>router.post('/check-eligibility')\<close>).
  The two copies differ only in the name of one local array (\<^verbatim>\<open>checks\<close> against
  \<^verbatim>\<open>eligibilityChecks\<close>) and in the spelling of the profile guard, so one
  embedding serves both.

  A JavaScript number is a finite value, \<^verbatim>\<open>NaN\<close>, or one of the two infinities.
  A finite value is represented by the rational it denotes: the rounding of doubles, their
  overflow and the sign of zero are not modelled.
\<close>

datatype jsnum = Num rat | NaN | PosInf | NegInf

fun jsneg :: "jsnum \<Rightarrow> jsnum" where
  "jsneg (Num a) = Num (- a)"
| "jsneg NaN = NaN"
| "jsneg PosInf = NegInf"
| "jsneg NegInf = PosInf"

fun jsadd :: "jsnum \<Rightarrow> jsnum \<Rightarrow> jsnum" where
  "jsadd NaN _ = NaN"
| "jsadd _ NaN = NaN"
| "jsadd (Num a) (Num b) = Num (a + b)"
| "jsadd PosInf NegInf = NaN"
| "jsadd NegInf PosInf = NaN"
| "jsadd PosInf _ = PosInf"
| "jsadd NegInf _ = NegInf"
| "jsadd (Num a) b = b"

definition jssub :: "jsnum \<Rightarrow> jsnum \<Rightarrow> jsnum" where
  "jssub a b = jsadd a (jsneg b)"

text \<open>The sign of a number: \<open>1\<close>, \<open>0\<close> or \<open>-1\<close>; only used on values that are not NaN.\<close>

fun jssgn :: "jsnum \<Rightarrow> int" where
  "jssgn (Num a) = (if a < 0 then - 1 else if a = 0 then 0 else 1)"
| "jssgn PosInf = 1"
| "jssgn NegInf = - 1"
| "jssgn NaN = 0"

definition infOfSign :: "int \<Rightarrow> jsnum" where
  "infOfSign s = (if s < 0 then NegInf else PosInf)"

fun jsmul :: "jsnum \<Rightarrow> jsnum \<Rightarrow> jsnum" where
  "jsmul NaN _ = NaN"
| "jsmul _ NaN = NaN"
| "jsmul (Num a) (Num b) = Num (a * b)"
| "jsmul a b = (if jssgn a * jssgn b = 0 then NaN else infOfSign (jssgn a * jssgn b))"

fun jsdiv :: "jsnum \<Rightarrow> jsnum \<Rightarrow> jsnum" where
  "jsdiv NaN _ = NaN"
| "jsdiv _ NaN = NaN"
| "jsdiv (Num a) (Num b) =
     (if b = 0 then (if a = 0 then NaN else infOfSign (jssgn (Num a))) else Num (a / b))"
| "jsdiv (Num a) _ = Num 0"
| "jsdiv a (Num b) = infOfSign (jssgn a * (if b < 0 then - 1 else 1))"
| "jsdiv _ _ = NaN"

text \<open>\<^verbatim>\<open>a < b\<close> on numbers: false as soon as one side is NaN.\<close>

fun jslt :: "jsnum \<Rightarrow> jsnum \<Rightarrow> bool" where
  "jslt NaN _ = False"
| "jslt _ NaN = False"
| "jslt (Num a) (Num b) = (a < b)"
| "jslt (Num a) PosInf = True"
| "jslt (Num a) NegInf = False"
| "jslt PosInf _ = False"
| "jslt NegInf NegInf = False"
| "jslt NegInf _ = True"

definition jsgt :: "jsnum \<Rightarrow> jsnum \<Rightarrow> bool" where
  "jsgt a b = jslt b a"

text \<open>\<^verbatim>\<open>Math.round\<close>: the nearest integer, a tie going up.\<close>

fun math_round :: "jsnum \<Rightarrow> jsnum" where
  "math_round (Num a) = Num (of_int \<lfloor>a + 1 / 2\<rfloor>)"
| "math_round v = v"

text \<open>\<^verbatim>\<open>v || 0\<close> on a number: \<^verbatim>\<open>NaN\<close> and zero are falsy.\<close>

definition orZero :: "jsnum \<Rightarrow> jsnum" where
  "orZero v = (if v = NaN \<or> v = Num 0 then Num 0 else v)"

definition isFinite :: "jsnum \<Rightarrow> bool" where
  "isFinite v = (case v of Num _ \<Rightarrow> True | _ \<Rightarrow> False)"

subsection \<open>Strings\<close>

text \<open>
  A JavaScript string is a sequence of UTF-16 code units. The rupee sign that
  \<^verbatim>\<open>parseIncome\<close> strips is the code unit \<open>0x20B9\<close>, outside the 8-bit
  characters of \<^typ>\<open>string\<close>, so a string is a list of code units here; \<open>js\<close>
  turns an ASCII literal into one.
\<close>

type_synonym jsstring = "nat list"

definition js :: "string \<Rightarrow> jsstring" where
  "js s = map of_char s"

text \<open>The class \<^verbatim>\<open>\s\<close> of a regular expression, which is also the white space that
  \<^verbatim>\<open>parseFloat\<close> skips.\<close>

definition isWhiteSpace :: "nat \<Rightarrow> bool" where
  "isWhiteSpace c =
     (c \<in> {9, 10, 11, 12, 13, 32, 160, 5760, 8232, 8233, 8239, 8287, 12288, 65279}
      \<or> (8192 \<le> c \<and> c \<le> 8202))"

text \<open>The class \<^verbatim>\<open>\d\<close>: the ten ASCII digits.\<close>

definition isDigit :: "nat \<Rightarrow> bool" where
  "isDigit c = (48 \<le> c \<and> c \<le> 57)"

fun startsWith :: "jsstring \<Rightarrow> jsstring \<Rightarrow> bool" where
  "startsWith s [] = True"
| "startsWith [] (p # ps) = False"
| "startsWith (c # cs) (p # ps) = (c = p \<and> startsWith cs ps)"

text \<open>\<^verbatim>\<open>s.includes(p)\<close>: \<open>p\<close> occurs in \<open>s\<close> as a contiguous run.\<close>

fun includesStr :: "jsstring \<Rightarrow> jsstring \<Rightarrow> bool" where
  "includesStr [] p = (p = [])"
| "includesStr (c # cs) p = (startsWith (c # cs) p \<or> includesStr cs p)"

text \<open>
  \<^verbatim>\<open>s.toLowerCase()\<close>. The ASCII capitals move to their small letters; the Kelvin sign
  \<open>0x212A\<close> becomes \<open>k\<close> and the dotted capital I \<open>0x130\<close> becomes \<open>i\<close> followed by a
  combining dot. Every other code unit is left as it is here: its lower-case form, where it
  has one, is again outside ASCII, and the result is only searched for ASCII words.
\<close>

definition lowerUnit :: "nat \<Rightarrow> jsstring" where
  "lowerUnit c =
     (if 65 \<le> c \<and> c \<le> 90 then [c + 32]
      else if c = 8490 then [107]
      else if c = 304 then [105, 775]
      else [c])"

definition toLowerCase :: "jsstring \<Rightarrow> jsstring" where
  "toLowerCase s = concat (map lowerUnit s)"

text \<open>\<^verbatim>\<open>s.split('-')\<close> for a one-unit separator: the pieces between the separators.\<close>

fun splitStr :: "nat \<Rightarrow> jsstring \<Rightarrow> jsstring list" where
  "splitStr sep [] = [[]]"
| "splitStr sep (c # cs) =
     (if c = sep then [] # splitStr sep cs
      else (case splitStr sep cs of p # ps \<Rightarrow> (c # p) # ps | [] \<Rightarrow> [[c]]))"

text \<open>\<^verbatim>\<open>xs[i]\<close>: \<^verbatim>\<open>undefined\<close> (here \<open>None\<close>) out of range.\<close>

fun elemAt :: "'a list \<Rightarrow> nat \<Rightarrow> 'a option" where
  "elemAt [] i = None"
| "elemAt (x # xs) 0 = Some x"
| "elemAt (x # xs) (Suc i) = elemAt xs i"

subsection \<open>parseFloat\<close>

text \<open>
  \<^verbatim>\<open>parseFloat\<close> is a built-in, modelled from the ECMAScript definition: skip leading
  white space, then read the longest prefix that is a decimal literal (an optional sign,
  then \<^verbatim>\<open>Infinity\<close>, or digits with an optional fraction and an optional exponent);
  whatever follows is ignored, and NaN is the result when there is no such prefix.
\<close>

definition digitsValue :: "jsstring \<Rightarrow> nat" where
  "digitsValue ds = foldl (\<lambda>a d. 10 * a + (d - 48)) 0 ds"

definition pow10 :: "int \<Rightarrow> rat" where
  "pow10 e = (if 0 \<le> e then 10 ^ nat e else 1 / 10 ^ nat (- e))"

text \<open>The exponent part \<^verbatim>\<open>e[+-]?digits\<close> at the head of the rest, \<open>0\<close> when absent
  or incomplete.\<close>

definition exponentPart :: "jsstring \<Rightarrow> int" where
  "exponentPart r =
     (case r of
        [] \<Rightarrow> 0
      | c # r1 \<Rightarrow>
          if c = 101 \<or> c = 69 then
            (let neg = (case r1 of [] \<Rightarrow> False | s # _ \<Rightarrow> s = 45);
                 r2 = (case r1 of [] \<Rightarrow> [] | s # t \<Rightarrow> if s = 45 \<or> s = 43 then t else r1);
                 ds = takeWhile isDigit r2
             in if ds = [] then 0
                else if neg then - int (digitsValue ds) else int (digitsValue ds))
          else 0)"

definition unsignedLiteral :: "jsstring \<Rightarrow> jsnum" where
  "unsignedLiteral s =
     (if startsWith s (js ''Infinity'') then PosInf
      else
        (let ip = takeWhile isDigit s;
             r1 = dropWhile isDigit s;
             dot = (case r1 of [] \<Rightarrow> False | c # _ \<Rightarrow> c = 46);
             fp = (if dot then takeWhile isDigit (tl r1) else []);
             r2 = (if dot then dropWhile isDigit (tl r1) else r1)
         in if ip = [] \<and> fp = [] then NaN
            else Num ((of_nat (digitsValue ip) + of_nat (digitsValue fp) / 10 ^ length fp)
                      * pow10 (exponentPart r2))))"

definition parseFloat :: "jsstring \<Rightarrow> jsnum" where
  "parseFloat s =
     (let t = dropWhile isWhiteSpace s
      in case t of
           [] \<Rightarrow> NaN
         | c # r \<Rightarrow>
             if c = 45 then jsneg (unsignedLiteral r)
             else if c = 43 then unsignedLiteral r
             else unsignedLiteral t)"

text \<open>\<^verbatim>\<open>parseFloat(x)\<close> where \<open>x\<close> may be \<^verbatim>\<open>undefined\<close>: the argument is first
  turned into the string \<^verbatim>\<open>"undefined"\<close>, which is no number.\<close>

definition parseFloatOpt :: "jsstring option \<Rightarrow> jsnum" where
  "parseFloatOpt x = (case x of None \<Rightarrow> NaN | Some s \<Rightarrow> parseFloat s)"

section \<open>The income normalizer\<close>

text \<open>
  \<^verbatim>\<open>parseIncome\<close> of both files. The argument is the profile's \<^verbatim>\<open>familyIncome\<close>,
  a string field that may be absent; \<^verbatim>\<open>!incomeString\<close> holds for an absent and for
  an empty string.
\<close>

definition cleanIncome :: "jsstring \<Rightarrow> jsstring" where
  "cleanIncome s = filter (\<lambda>c. \<not> (c = 8377 \<or> c = 44 \<or> isWhiteSpace c)) s"

definition digitsAndDots :: "jsstring \<Rightarrow> jsstring" where
  "digitsAndDots s = filter (\<lambda>c. isDigit c \<or> c = 46) s"

definition parseIncome :: "jsstring option \<Rightarrow> jsnum" where
  "parseIncome incomeString =
     (case incomeString of
        None \<Rightarrow> Num 0
      | Some s \<Rightarrow>
          if s = [] then Num 0
          else
            (let clean = cleanIncome s
             in if includesStr clean (js ''-'') then
                  (let range = splitStr 45 clean;
                       lower = parseFloatOpt (elemAt range 0);
                       upper = parseFloatOpt (elemAt range 1)
                   in jsdiv (jsadd lower upper) (Num 2))
                else if includesStr (toLowerCase clean) (js ''lakh'') then
                  jsmul (parseFloat (digitsAndDots clean)) (Num 100000)
                else if includesStr (toLowerCase clean) (js ''crore'') then
                  jsmul (parseFloat (digitsAndDots clean)) (Num 10000000)
                else orZero (parseFloat clean)))"

section \<open>Dates and the age calculator\<close>

text \<open>
  A \<^verbatim>\<open>Date\<close> object, by what the code reads of it: its time value (which \<^verbatim>\<open><\<close>
  compares) and its local calendar fields; \<^verbatim>\<open>getMonth\<close> counts from \<open>0\<close>. The
  current time \<^verbatim>\<open>new Date()\<close> is a parameter \<open>now\<close> of every function that reads the
  clock, one value for the whole request.
\<close>

record Date =
  getTime :: int
  getFullYear :: int
  getMonth :: int
  getDate :: int

definition calculateAge :: "Date \<Rightarrow> Date option \<Rightarrow> int" where
  "calculateAge today dateOfBirth =
     (case dateOfBirth of
        None \<Rightarrow> 0
      | Some birthDate \<Rightarrow>
          (let age = getFullYear today - getFullYear birthDate;
               monthDiff = getMonth today - getMonth birthDate
           in if monthDiff < 0 \<or> (monthDiff = 0 \<and> getDate today < getDate birthDate)
              then age - 1 else age))"

section \<open>The data model\<close>

text \<open>
  The fields of the two mongoose schemas that the eligibility route reads. A field without
  a default may be absent (\<open>None\<close>); the numeric criteria have defaults and the array
  fields default to the empty array, so they are always present.
\<close>

record Profile =
  fullName :: "jsstring option"
  dateOfBirth :: "Date option"
  gender :: "jsstring option"
  category :: "jsstring option"
  currentEducation :: "jsstring option"
  fieldOfStudy :: "jsstring option"
  cgpa :: "jsstring option"
  familyIncome :: "jsstring option"
  isProfileComplete :: bool

record User =
  name :: jsstring
  profile :: "Profile option"

record Criteria =
  minCgpa :: rat
  maxCgpa :: rat
  requiredEducation :: "jsstring list"
  requiredFields :: "jsstring list"
  maxFamilyIncome :: rat
  minFamilyIncome :: rat
  allowedGenders :: "jsstring list"
  allowedCategories :: "jsstring list"
  minAge :: rat
  maxAge :: rat
  allowedStates :: "jsstring list"
  allowedCities :: "jsstring list"

record Contact =
  email :: "jsstring option"
  phone :: "jsstring option"
  website :: "jsstring option"

record Summary =
  sid :: nat
  title :: jsstring
  description :: "jsstring option"
  provider :: jsstring
  amount :: jsstring
  applicationDeadline :: "Date option"
  documentsRequired :: "jsstring list"
  contactInfo :: "Contact option"

record Scholarship = Summary +
  isActive :: bool
  eligibilityCriteria :: Criteria

text \<open>
  One entry of the trace. The two display strings of an entry (\<^verbatim>\<open>required\<close> and
  \<^verbatim>\<open>userValue\<close>) are numbers and lists printed for the reader, partly through the
  locale-dependent \<^verbatim>\<open>toLocaleString\<close>; nothing is computed from them and they are left
  out.
\<close>

record EligibilityCheck =
  criterion :: string
  passed :: bool

record Result =
  scholarship :: Summary
  isEligible :: bool
  deadlineStatus :: string
  eligibilityChecks :: "EligibilityCheck list"
  matchPercentage :: jsnum

section \<open>The eligibility evaluator\<close>

text \<open>
  The body of the loop over the scholarships. Its two mutable locals, the flag
  \<^verbatim>\<open>isEligible\<close> and the array \<^verbatim>\<open>checks\<close>, are the state that each criterion
  takes and returns.
\<close>

record Locals =
  isEligibleVar :: bool
  checks :: "EligibilityCheck list"

definition push :: "string \<Rightarrow> bool \<Rightarrow> Locals \<Rightarrow> Locals" where
  "push c ok v = v\<lparr>checks := checks v @ [\<lparr>criterion = c, passed = ok\<rparr>]\<rparr>"

text \<open>\<^verbatim>\<open>xs.includes(v)\<close> on an array of strings, \<open>v\<close> possibly \<^verbatim>\<open>undefined\<close>.\<close>

definition arrayIncludes :: "jsstring list \<Rightarrow> jsstring option \<Rightarrow> bool" where
  "arrayIncludes xs v = (case v of None \<Rightarrow> False | Some s \<Rightarrow> s \<in> set xs)"

definition checkCgpa :: "jsnum \<Rightarrow> Criteria \<Rightarrow> Locals \<Rightarrow> Locals" where
  "checkCgpa userCgpa criteria v =
     (if jslt userCgpa (Num (minCgpa criteria)) \<or> jsgt userCgpa (Num (maxCgpa criteria))
      then push ''CGPA'' False (v\<lparr>isEligibleVar := False\<rparr>)
      else push ''CGPA'' True v)"

definition checkEducation :: "Profile \<Rightarrow> Criteria \<Rightarrow> Locals \<Rightarrow> Locals" where
  "checkEducation p criteria v =
     (if length (requiredEducation criteria) > 0
         \<and> \<not> arrayIncludes (requiredEducation criteria) (currentEducation p)
      then push ''Education Level'' False (v\<lparr>isEligibleVar := False\<rparr>)
      else if length (requiredEducation criteria) > 0
      then push ''Education Level'' True v
      else v)"

definition checkField :: "Profile \<Rightarrow> Criteria \<Rightarrow> Locals \<Rightarrow> Locals" where
  "checkField p criteria v =
     (if length (requiredFields criteria) > 0
         \<and> \<not> arrayIncludes (requiredFields criteria) (fieldOfStudy p)
      then push ''Field of Study'' False (v\<lparr>isEligibleVar := False\<rparr>)
      else if length (requiredFields criteria) > 0
      then push ''Field of Study'' True v
      else v)"

definition checkIncome :: "jsnum \<Rightarrow> Criteria \<Rightarrow> Locals \<Rightarrow> Locals" where
  "checkIncome userIncome criteria v =
     (if jsgt userIncome (Num (maxFamilyIncome criteria))
         \<or> jslt userIncome (Num (minFamilyIncome criteria))
      then push ''Family Income'' False (v\<lparr>isEligibleVar := False\<rparr>)
      else push ''Family Income'' True v)"

definition checkGender :: "Profile \<Rightarrow> Criteria \<Rightarrow> Locals \<Rightarrow> Locals" where
  "checkGender p criteria v =
     (if length (allowedGenders criteria) > 0
         \<and> \<not> arrayIncludes (allowedGenders criteria) (Some (js ''All''))
         \<and> \<not> arrayIncludes (allowedGenders criteria) (gender p)
      then push ''Gender'' False (v\<lparr>isEligibleVar := False\<rparr>)
      else if length (allowedGenders criteria) > 0
              \<and> \<not> arrayIncludes (allowedGenders criteria) (Some (js ''All''))
      then push ''Gender'' True v
      else v)"

definition checkCategory :: "Profile \<Rightarrow> Criteria \<Rightarrow> Locals \<Rightarrow> Locals" where
  "checkCategory p criteria v =
     (if length (allowedCategories criteria) > 0
         \<and> \<not> arrayIncludes (allowedCategories criteria) (category p)
      then push ''Category'' False (v\<lparr>isEligibleVar := False\<rparr>)
      else if length (allowedCategories criteria) > 0
      then push ''Category'' True v
      else v)"

definition checkAge :: "int \<Rightarrow> Criteria \<Rightarrow> Locals \<Rightarrow> Locals" where
  "checkAge userAge criteria v =
     (if jslt (Num (of_int userAge)) (Num (minAge criteria))
         \<or> jsgt (Num (of_int userAge)) (Num (maxAge criteria))
      then push ''Age'' False (v\<lparr>isEligibleVar := False\<rparr>)
      else push ''Age'' True v)"

text \<open>\<^verbatim>\<open>scholarship.applicationDeadline && scholarship.applicationDeadline < now\<close>\<close>

definition deadlinePassed :: "Date \<Rightarrow> Date option \<Rightarrow> bool" where
  "deadlinePassed now deadline =
     (case deadline of None \<Rightarrow> False | Some d \<Rightarrow> getTime d < getTime now)"

text \<open>\<^verbatim>\<open>Math.round((checks.filter(c => c.passed).length / checks.length) * 100)\<close>\<close>

definition matchPercentageOf :: "EligibilityCheck list \<Rightarrow> jsnum" where
  "matchPercentageOf cs =
     math_round (jsmul (jsdiv (Num (of_nat (length (filter passed cs))))
                              (Num (of_nat (length cs))))
                       (Num 100))"

definition summaryOf :: "Scholarship \<Rightarrow> Summary" where
  "summaryOf s =
     \<lparr>sid = sid s, title = title s, description = description s, provider = provider s,
      amount = amount s, applicationDeadline = applicationDeadline s,
      documentsRequired = documentsRequired s, contactInfo = contactInfo s\<rparr>"

text \<open>The seven criteria in the order of the source.\<close>

definition runChecks :: "int \<Rightarrow> jsnum \<Rightarrow> jsnum \<Rightarrow> Profile \<Rightarrow> Criteria \<Rightarrow> Locals" where
  "runChecks userAge userIncome userCgpa p criteria =
     checkAge userAge criteria
       (checkCategory p criteria
         (checkGender p criteria
           (checkIncome userIncome criteria
             (checkField p criteria
               (checkEducation p criteria
                 (checkCgpa userCgpa criteria
                   \<lparr>isEligibleVar = True, checks = []\<rparr>))))))"

definition evaluate ::
  "Date \<Rightarrow> int \<Rightarrow> jsnum \<Rightarrow> jsnum \<Rightarrow> Profile \<Rightarrow> Scholarship \<Rightarrow> Result" where
  "evaluate now userAge userIncome userCgpa p s =
     (let v = runChecks userAge userIncome userCgpa p (eligibilityCriteria s);
          expired = deadlinePassed now (applicationDeadline s)
      in \<lparr>scholarship = summaryOf s,
          isEligible = (if expired then False else isEligibleVar v),
          deadlineStatus = (if expired then ''Expired'' else ''Active''),
          eligibilityChecks = checks v,
          matchPercentage = matchPercentageOf (checks v)\<rparr>)"

section \<open>The ranking pipeline\<close>

text \<open>
  \<^verbatim>\<open>Array.prototype.sort\<close> is a built-in, modelled from the ECMAScript definition: the
  sort is stable, an element \<open>a\<close> moves behind an element \<open>b\<close> that followed it only when
  \<^verbatim>\<open>comparefn(a, b) > 0\<close>, and a comparator result that is NaN counts as zero. For a
  consistent comparator the sorted array is unique, and insertion from the right computes
  it.
\<close>

fun insertBy :: "('a \<Rightarrow> 'a \<Rightarrow> jsnum) \<Rightarrow> 'a \<Rightarrow> 'a list \<Rightarrow> 'a list" where
  "insertBy cmp x [] = [x]"
| "insertBy cmp x (y # ys) =
     (if jsgt (cmp x y) (Num 0) then y # insertBy cmp x ys else x # y # ys)"

fun arraySort :: "('a \<Rightarrow> 'a \<Rightarrow> jsnum) \<Rightarrow> 'a list \<Rightarrow> 'a list" where
  "arraySort cmp [] = []"
| "arraySort cmp (x # xs) = insertBy cmp x (arraySort cmp xs)"

text \<open>The comparator of \<^verbatim>\<open>eligibilityResults.sort\<close>.\<close>

definition compareResults :: "Result \<Rightarrow> Result \<Rightarrow> jsnum" where
  "compareResults a b =
     (if isEligible a \<and> \<not> isEligible b then Num (- 1)
      else if \<not> isEligible a \<and> isEligible b then Num 1
      else jssub (matchPercentage b) (matchPercentage a))"

text \<open>The normalisation of the profile and the loop over the scholarships, which pushes
  one result per scholarship in the order of the input.\<close>

definition evaluateAll :: "Date \<Rightarrow> Profile \<Rightarrow> Scholarship list \<Rightarrow> Result list" where
  "evaluateAll now p scholarships =
     (let userAge = calculateAge now (dateOfBirth p);
          userIncome = parseIncome (familyIncome p);
          userCgpa = orZero (parseFloatOpt (cgpa p))
      in map (evaluate now userAge userIncome userCgpa p) scholarships)"

text \<open>The loop followed by the sort.\<close>

definition rankedResults :: "Date \<Rightarrow> Profile \<Rightarrow> Scholarship list \<Rightarrow> Result list" where
  "rankedResults now p scholarships =
     arraySort compareResults (evaluateAll now p scholarships)"

text \<open>
  The echo of the profile in the response; the income is kept as the number, where the
  source prints it with \<^verbatim>\<open>toLocaleString\<close>.
\<close>

record Snapshot =
  snapName :: jsstring
  snapCgpa :: jsnum
  snapEducation :: "jsstring option"
  snapField :: "jsstring option"
  snapIncome :: jsnum
  snapAge :: int
  snapGender :: "jsstring option"
  snapCategory :: "jsstring option"

datatype Response =
    BadRequest
  | NotFound
  | Incomplete (message: string) (eligibleScholarships: "Result list") (incompleteProfile: bool)
  | Ranked (totalScholarships: nat) (eligibleCount: nat) (results: "Result list")
      (userProfile: Snapshot)

text \<open>
  The route from the profile guard on: \<open>catalog\<close> is the scholarship collection, of which
  \<^verbatim>\<open>Scholarship.find({ isActive: true })\<close> selects the candidates.
\<close>

definition rank :: "Date \<Rightarrow> User \<Rightarrow> Scholarship list \<Rightarrow> Response" where
  "rank now user catalog =
     (case profile user of
        None \<Rightarrow> Incomplete ''Please complete your profile to check eligibility'' [] True
      | Some p \<Rightarrow>
          if \<not> isProfileComplete p
          then Incomplete ''Please complete your profile to check eligibility'' [] True
          else
            (let scholarships = filter isActive catalog;
                 eligibilityResults = rankedResults now p scholarships
             in Ranked (length scholarships)
                  (length (filter isEligible eligibilityResults))
                  eligibilityResults
                  \<lparr>snapName = (case fullName p of
                                 None \<Rightarrow> name user
                               | Some n \<Rightarrow> if n = [] then name user else n),
                   snapCgpa = orZero (parseFloatOpt (cgpa p)),
                   snapEducation = currentEducation p,
                   snapField = fieldOfStudy p,
                   snapIncome = parseIncome (familyIncome p),
                   snapAge = calculateAge now (dateOfBirth p),
                   snapGender = gender p,
                   snapCategory = category p\<rparr>))"

text \<open>The whole route: the request's email and the user collection's \<^verbatim>\<open>findOne\<close>.\<close>

definition checkEligibilityRoute ::
  "Date \<Rightarrow> jsstring option \<Rightarrow> (jsstring \<Rightarrow> User option) \<Rightarrow> Scholarship list \<Rightarrow> Response" where
  "checkEligibilityRoute now emailOpt findOne catalog =
     (case emailOpt of
        None \<Rightarrow> BadRequest
      | Some e \<Rightarrow>
          if e = [] then BadRequest
          else (case findOne e of
                  None \<Rightarrow> NotFound
                | Some user \<Rightarrow> rank now user catalog))"

section \<open>Notions used to state the properties\<close>

text \<open>
  The trace that the specification describes, as a function of the criteria alone: the
  fixed order of the seven criteria, the four optional ones present when they are
  constrained.
\<close>

definition emittedCriteria :: "Criteria \<Rightarrow> string list" where
  "emittedCriteria c =
     [''CGPA'']
     @ (if requiredEducation c \<noteq> [] then [''Education Level''] else [])
     @ (if requiredFields c \<noteq> [] then [''Field of Study''] else [])
     @ [''Family Income'']
     @ (if allowedGenders c \<noteq> [] \<and> js ''All'' \<notin> set (allowedGenders c) then [''Gender''] else [])
     @ (if allowedCategories c \<noteq> [] then [''Category''] else [])
     @ [''Age'']"

text \<open>The flag of the loop agrees with the trace collected so far.\<close>

definition consistent :: "Locals \<Rightarrow> bool" where
  "consistent v = (isEligibleVar v = list_all passed (checks v))"




section \<open>Sample data\<close>

text \<open>
  A request on 3 November 2026 by a user born on 3 November 2006, and a scholarship with
  a CGPA range of 8.5 to 10 that is open to all genders; one copy of the scholarship has a
  deadline in 2023, the other has none.
\<close>

definition sampleNow :: Date where
  "sampleNow = \<lparr>getTime = 1793700000000, getFullYear = 2026, getMonth = 10, getDate = 3\<rparr>"

definition sampleCriteria :: Criteria where
  "sampleCriteria =
     \<lparr>minCgpa = 17 / 2, maxCgpa = 10, requiredEducation = [], requiredFields = [],
      maxFamilyIncome = 999999999, minFamilyIncome = 0,
      allowedGenders = [js ''All''], allowedCategories = [],
      minAge = 0, maxAge = 100, allowedStates = [], allowedCities = []\<rparr>"

definition sampleScholarship :: Scholarship where
  "sampleScholarship =
     \<lparr>sid = 1, title = js ''Merit Award'', description = None, provider = js ''Trust'',
      amount = js ''50000'',
      applicationDeadline =
        Some \<lparr>getTime = 1700000000000, getFullYear = 2023, getMonth = 10, getDate = 14\<rparr>,
      documentsRequired = [], contactInfo = None,
      isActive = True, eligibilityCriteria = sampleCriteria\<rparr>"

definition sampleProfile :: Profile where
  "sampleProfile =
     \<lparr>fullName = Some (js ''Asha''),
      dateOfBirth =
        Some \<lparr>getTime = 1162512000000, getFullYear = 2006, getMonth = 10, getDate = 3\<rparr>,
      gender = Some (js ''Female''), category = Some (js ''General''),
      currentEducation = Some (js ''Undergraduate''),
      fieldOfStudy = Some (js ''Engineering''),
      cgpa = Some (js ''9.0''), familyIncome = Some (js ''5 lakh''),
      isProfileComplete = True\<rparr>"



text \<open>A third copy, whose deadline of 15 January 2027 lies after the request.\<close>

definition futureScholarship :: Scholarship where
  "futureScholarship =
     \<lparr>sid = 3, title = js ''Merit Award'', description = None, provider = js ''Trust'',
      amount = js ''50000'',
      applicationDeadline =
        Some \<lparr>getTime = 1800000000000, getFullYear = 2027, getMonth = 0, getDate = 15\<rparr>,
      documentsRequired = [], contactInfo = None,
      isActive = True, eligibilityCriteria = sampleCriteria\<rparr>"


section \<open>Lemmas about the evaluator\<close>

lemma names_push: "map criterion (checks (push c ok v)) = map criterion (checks v) @ [c]"
  by (simp add: push_def)

lemma names_clear: "checks (v\<lparr>isEligibleVar := b\<rparr>) = checks v"
  by simp

lemma names_checkCgpa:
  "map criterion (checks (checkCgpa g c v)) = map criterion (checks v) @ [''CGPA'']"
  by (simp add: checkCgpa_def names_push)

lemma names_checkEducation:
  "map criterion (checks (checkEducation p c v)) =
     map criterion (checks v) @ (if requiredEducation c \<noteq> [] then [''Education Level''] else [])"
  by (simp add: checkEducation_def names_push)

lemma names_checkField:
  "map criterion (checks (checkField p c v)) =
     map criterion (checks v) @ (if requiredFields c \<noteq> [] then [''Field of Study''] else [])"
  by (simp add: checkField_def names_push)

lemma names_checkIncome:
  "map criterion (checks (checkIncome i c v)) = map criterion (checks v) @ [''Family Income'']"
  by (simp add: checkIncome_def names_push)

lemma names_checkGender:
  "map criterion (checks (checkGender p c v)) =
     map criterion (checks v)
     @ (if allowedGenders c \<noteq> [] \<and> js ''All'' \<notin> set (allowedGenders c) then [''Gender''] else [])"
  by (simp add: checkGender_def names_push arrayIncludes_def)

lemma names_checkCategory:
  "map criterion (checks (checkCategory p c v)) =
     map criterion (checks v) @ (if allowedCategories c \<noteq> [] then [''Category''] else [])"
  by (simp add: checkCategory_def names_push)

lemma names_checkAge:
  "map criterion (checks (checkAge a c v)) = map criterion (checks v) @ [''Age'']"
  by (simp add: checkAge_def names_push)

lemma names_runChecks: "map criterion (checks (runChecks a i g p c)) = emittedCriteria c"
  unfolding runChecks_def emittedCriteria_def
  by (simp only: names_checkCgpa names_checkEducation names_checkField names_checkIncome
        names_checkGender names_checkCategory names_checkAge append_assoc)
     simp

lemma consistent_pass: "consistent v \<Longrightarrow> consistent (push c True v)"
  by (simp add: consistent_def push_def)

lemma consistent_fail: "consistent (push c False (v\<lparr>isEligibleVar := False\<rparr>))"
  by (simp add: consistent_def push_def)

lemma consistent_checkCgpa: "consistent v \<Longrightarrow> consistent (checkCgpa g c v)"
  by (simp add: checkCgpa_def consistent_pass consistent_fail)

lemma consistent_checkEducation: "consistent v \<Longrightarrow> consistent (checkEducation p c v)"
  by (simp add: checkEducation_def consistent_pass consistent_fail)

lemma consistent_checkField: "consistent v \<Longrightarrow> consistent (checkField p c v)"
  by (simp add: checkField_def consistent_pass consistent_fail)

lemma consistent_checkIncome: "consistent v \<Longrightarrow> consistent (checkIncome i c v)"
  by (simp add: checkIncome_def consistent_pass consistent_fail)

lemma consistent_checkGender: "consistent v \<Longrightarrow> consistent (checkGender p c v)"
  by (simp add: checkGender_def consistent_pass consistent_fail)

lemma consistent_checkCategory: "consistent v \<Longrightarrow> consistent (checkCategory p c v)"
  by (simp add: checkCategory_def consistent_pass consistent_fail)

lemma consistent_checkAge: "consistent v \<Longrightarrow> consistent (checkAge a c v)"
  by (simp add: checkAge_def consistent_pass consistent_fail)

lemma consistent_runChecks: "consistent (runChecks a i g p c)"
  unfolding runChecks_def
  by (intro consistent_checkAge consistent_checkCategory consistent_checkGender
        consistent_checkIncome consistent_checkField consistent_checkEducation
        consistent_checkCgpa) (simp add: consistent_def)

lemma trace_evaluate: "map criterion (eligibilityChecks (evaluate now a i g p s)) = emittedCriteria (eligibilityCriteria s)"
  by (simp add: evaluate_def Let_def names_runChecks)

lemma length_emittedCriteria: "3 \<le> length (emittedCriteria c) \<and> length (emittedCriteria c) \<le> 7"
  by (simp add: emittedCriteria_def)

lemma length_trace: "3 \<le> length (eligibilityChecks (evaluate now a i g p s))"
proof -
  have "length (eligibilityChecks (evaluate now a i g p s)) = length (emittedCriteria (eligibilityCriteria s))"
    using trace_evaluate [of now a i g p s] by (metis length_map)
  then show ?thesis using length_emittedCriteria by simp
qed

lemma matchPercentageOf_nonempty:
  assumes "cs \<noteq> []"
  shows "matchPercentageOf cs =
           Num (of_int (round (100 * of_nat (length (filter passed cs)) / of_nat (length cs) :: rat)))"
  using assms by (simp add: matchPercentageOf_def round_def mult.commute)

lemma matchPercentageOf_bounds:
  assumes "cs \<noteq> []"
  shows "\<exists>m::int. matchPercentageOf cs = Num (of_int m) \<and> 0 \<le> m \<and> m \<le> 100"
proof -
  let ?p = "of_nat (length (filter passed cs)) :: rat"
  let ?n = "of_nat (length cs) :: rat"
  let ?x = "100 * ?p / ?n"
  have n: "0 < ?n" using assms by simp
  have pn: "?p \<le> ?n" by simp
  have lo: "0 \<le> ?x" using n by simp
  have hi: "?x \<le> 100" using n pn by (simp add: pos_divide_le_eq)
  have "0 \<le> round ?x" using lo by (simp add: round_def)
  moreover have "round ?x \<le> 100"
  proof -
    have "round ?x \<le> round (100::rat)" using hi by (rule round_mono)
    then show ?thesis by simp
  qed
  ultimately show ?thesis using matchPercentageOf_nonempty [OF assms] by blast
qed

lemma arrayIncludes_iff: "arrayIncludes xs v \<longleftrightarrow> v \<in> Some ` set xs"
  by (cases v) (auto simp: arrayIncludes_def)

lemma entries_checkCgpa:
  "checks (checkCgpa g c v) =
     checks v @ [\<lparr>criterion = ''CGPA'',
                  passed = (\<not> jslt g (Num (minCgpa c)) \<and> \<not> jslt (Num (maxCgpa c)) g)\<rparr>]"
  by (simp add: checkCgpa_def push_def jsgt_def)

lemma entries_checkEducation:
  "checks (checkEducation p c v) =
     checks v @ (if requiredEducation c \<noteq> []
                 then [\<lparr>criterion = ''Education Level'',
                        passed = (currentEducation p \<in> Some ` set (requiredEducation c))\<rparr>]
                 else [])"
  by (simp add: checkEducation_def push_def arrayIncludes_iff)

lemma entries_checkField:
  "checks (checkField p c v) =
     checks v @ (if requiredFields c \<noteq> []
                 then [\<lparr>criterion = ''Field of Study'',
                        passed = (fieldOfStudy p \<in> Some ` set (requiredFields c))\<rparr>]
                 else [])"
  by (simp add: checkField_def push_def arrayIncludes_iff)

lemma entries_checkIncome:
  "checks (checkIncome i c v) =
     checks v @ [\<lparr>criterion = ''Family Income'',
                  passed = (\<not> jslt (Num (maxFamilyIncome c)) i
                            \<and> \<not> jslt i (Num (minFamilyIncome c)))\<rparr>]"
  by (simp add: checkIncome_def push_def jsgt_def)

lemma entries_checkGender:
  "checks (checkGender p c v) =
     checks v @ (if allowedGenders c \<noteq> [] \<and> js ''All'' \<notin> set (allowedGenders c)
                 then [\<lparr>criterion = ''Gender'',
                        passed = (gender p \<in> Some ` set (allowedGenders c))\<rparr>]
                 else [])"
  by (simp add: checkGender_def push_def arrayIncludes_iff image_iff)

lemma entries_checkCategory:
  "checks (checkCategory p c v) =
     checks v @ (if allowedCategories c \<noteq> []
                 then [\<lparr>criterion = ''Category'',
                        passed = (category p \<in> Some ` set (allowedCategories c))\<rparr>]
                 else [])"
  by (simp add: checkCategory_def push_def arrayIncludes_iff)

lemma entries_checkAge:
  "checks (checkAge a c v) =
     checks v @ [\<lparr>criterion = ''Age'',
                  passed = (minAge c \<le> of_int a \<and> of_int a \<le> maxAge c)\<rparr>]"
  by (auto simp: checkAge_def push_def jsgt_def)

lemma entries_runChecks:
  "checks (runChecks a i g p c) =
     [\<lparr>criterion = ''CGPA'',
       passed = (\<not> jslt g (Num (minCgpa c)) \<and> \<not> jslt (Num (maxCgpa c)) g)\<rparr>]
     @ (if requiredEducation c \<noteq> []
        then [\<lparr>criterion = ''Education Level'',
               passed = (currentEducation p \<in> Some ` set (requiredEducation c))\<rparr>]
        else [])
     @ (if requiredFields c \<noteq> []
        then [\<lparr>criterion = ''Field of Study'',
               passed = (fieldOfStudy p \<in> Some ` set (requiredFields c))\<rparr>]
        else [])
     @ [\<lparr>criterion = ''Family Income'',
         passed = (\<not> jslt (Num (maxFamilyIncome c)) i \<and> \<not> jslt i (Num (minFamilyIncome c)))\<rparr>]
     @ (if allowedGenders c \<noteq> [] \<and> js ''All'' \<notin> set (allowedGenders c)
        then [\<lparr>criterion = ''Gender'',
               passed = (gender p \<in> Some ` set (allowedGenders c))\<rparr>]
        else [])
     @ (if allowedCategories c \<noteq> []
        then [\<lparr>criterion = ''Category'',
               passed = (category p \<in> Some ` set (allowedCategories c))\<rparr>]
        else [])
     @ [\<lparr>criterion = ''Age'',
         passed = (minAge c \<le> of_int a \<and> of_int a \<le> maxAge c)\<rparr>]"
  unfolding runChecks_def
  by (simp only: entries_checkCgpa entries_checkEducation entries_checkField
        entries_checkIncome entries_checkGender entries_checkCategory entries_checkAge
        append_assoc)
     simp

lemma expired_iff:
  "deadlineStatus (evaluate now a i g p s) = ''Expired''
     \<longleftrightarrow> (\<exists>d. applicationDeadline s = Some d \<and> getTime d < getTime now)"
  by (cases "applicationDeadline s") (simp_all add: evaluate_def Let_def deadlinePassed_def)

lemma active_iff:
  "deadlineStatus (evaluate now a i g p s) = ''Active''
     \<longleftrightarrow> \<not> (\<exists>d. applicationDeadline s = Some d \<and> getTime d < getTime now)"
  by (cases "applicationDeadline s") (simp_all add: evaluate_def Let_def deadlinePassed_def)

text \<open>
  The expression of the match percentage has no case of its own for an empty trace, where
  it is \<^verbatim>\<open>Math.round(0 / 0 * 100)\<close>; the evaluator never applies it to one.
\<close>

lemma matchPercentageOf_empty: "matchPercentageOf [] = NaN"
  by (simp add: matchPercentageOf_def)


section \<open>Lemmas about the sort\<close>















section \<open>The sample data evaluated\<close>

lemmas income_defs = parseIncome_def js_def cleanIncome_def isWhiteSpace_def toLowerCase_def
  lowerUnit_def digitsAndDots_def isDigit_def parseFloat_def parseFloatOpt_def
  unsignedLiteral_def digitsValue_def exponentPart_def pow10_def orZero_def

lemmas check_defs = runChecks_def checkCgpa_def checkEducation_def checkField_def
  checkIncome_def checkGender_def checkCategory_def checkAge_def push_def arrayIncludes_def
  jsgt_def deadlinePassed_def





lemma sample_checks:
  "checks (runChecks 20 (Num 500000) (Num 9) sampleProfile sampleCriteria) =
     [\<lparr>criterion = ''CGPA'', passed = True\<rparr>,
      \<lparr>criterion = ''Family Income'', passed = True\<rparr>,
      \<lparr>criterion = ''Age'', passed = True\<rparr>]"
  by (simp add: check_defs sampleCriteria_def sampleProfile_def js_def)


lemma sample_evaluate:
  "evaluate sampleNow 20 (Num 500000) (Num 9) sampleProfile sampleScholarship =
     \<lparr>scholarship = summaryOf sampleScholarship, isEligible = False,
      deadlineStatus = ''Expired'',
      eligibilityChecks =
        [\<lparr>criterion = ''CGPA'', passed = True\<rparr>,
         \<lparr>criterion = ''Family Income'', passed = True\<rparr>,
         \<lparr>criterion = ''Age'', passed = True\<rparr>],
      matchPercentage = Num 100\<rparr>"
proof -
  have c: "eligibilityCriteria sampleScholarship = sampleCriteria"
    by (simp add: sampleScholarship_def)
  have d: "deadlinePassed sampleNow (applicationDeadline sampleScholarship)"
    by (simp add: deadlinePassed_def sampleScholarship_def sampleNow_def)
  have m: "matchPercentageOf
     [\<lparr>criterion = ''CGPA'', passed = True\<rparr>,
      \<lparr>criterion = ''Family Income'', passed = True\<rparr>,
      \<lparr>criterion = ''Age'', passed = True\<rparr>] = Num 100"
    by (simp add: matchPercentageOf_nonempty)
  show ?thesis
    by (simp add: evaluate_def Let_def c d sample_checks m)
qed


section \<open>The properties\<close>

text \<open>
  C1. For every normalised profile (age, income, CGPA and the categorical fields) and every
  scholarship, the result is eligible exactly when every check of its trace has passed and
  the deadline is not expired. The deadline status is \<^verbatim>\<open>Expired\<close> exactly when the
  scholarship has a deadline that lies strictly before the current time, and
  \<^verbatim>\<open>Active\<close> otherwise. Every emitted check carries the outcome of its own test,
  whatever the outcomes of the checks before it: the trace is the list of the emitted
  criteria, each with its own test of the profile, and the criteria named in it are the
  same for every profile and every time.
\<close>

theorem evaluate_isEligible_iff:
  "(isEligible (evaluate now a i g p s) \<longleftrightarrow>
      (\<forall>c \<in> set (eligibilityChecks (evaluate now a i g p s)). passed c)
      \<and> deadlineStatus (evaluate now a i g p s) \<noteq> ''Expired'')
   \<and> map criterion (eligibilityChecks (evaluate now a i g p s))
       = map criterion (eligibilityChecks (evaluate now' a' i' g' p' s))
   \<and> (isEligible (evaluate now a i g p s) \<longleftrightarrow>
        (\<forall>c \<in> set (eligibilityChecks (evaluate now a i g p s)). passed c)
        \<and> \<not> (\<exists>d. applicationDeadline s = Some d \<and> getTime d < getTime now))
   \<and> (deadlineStatus (evaluate now a i g p s) = ''Expired''
        \<longleftrightarrow> (\<exists>d. applicationDeadline s = Some d \<and> getTime d < getTime now))
   \<and> (deadlineStatus (evaluate now a i g p s) = ''Active''
        \<longleftrightarrow> \<not> (\<exists>d. applicationDeadline s = Some d \<and> getTime d < getTime now))
   \<and> eligibilityChecks (evaluate now a i g p s) =
       [\<lparr>criterion = ''CGPA'',
         passed = (\<not> jslt g (Num (minCgpa (eligibilityCriteria s)))
                   \<and> \<not> jslt (Num (maxCgpa (eligibilityCriteria s))) g)\<rparr>]
       @ (if requiredEducation (eligibilityCriteria s) \<noteq> []
          then [\<lparr>criterion = ''Education Level'',
                 passed = (currentEducation p
                             \<in> Some ` set (requiredEducation (eligibilityCriteria s)))\<rparr>]
          else [])
       @ (if requiredFields (eligibilityCriteria s) \<noteq> []
          then [\<lparr>criterion = ''Field of Study'',
                 passed = (fieldOfStudy p
                             \<in> Some ` set (requiredFields (eligibilityCriteria s)))\<rparr>]
          else [])
       @ [\<lparr>criterion = ''Family Income'',
           passed = (\<not> jslt (Num (maxFamilyIncome (eligibilityCriteria s))) i
                     \<and> \<not> jslt i (Num (minFamilyIncome (eligibilityCriteria s))))\<rparr>]
       @ (if allowedGenders (eligibilityCriteria s) \<noteq> []
             \<and> js ''All'' \<notin> set (allowedGenders (eligibilityCriteria s))
          then [\<lparr>criterion = ''Gender'',
                 passed = (gender p \<in> Some ` set (allowedGenders (eligibilityCriteria s)))\<rparr>]
          else [])
       @ (if allowedCategories (eligibilityCriteria s) \<noteq> []
          then [\<lparr>criterion = ''Category'',
                 passed = (category p
                             \<in> Some ` set (allowedCategories (eligibilityCriteria s)))\<rparr>]
          else [])
       @ [\<lparr>criterion = ''Age'',
           passed = (minAge (eligibilityCriteria s) \<le> of_int a
                     \<and> of_int a \<le> maxAge (eligibilityCriteria s))\<rparr>]"
proof -
  let ?r = "evaluate now a i g p s"
  have "consistent (runChecks a i g p (eligibilityCriteria s))"
    by (rule consistent_runChecks)
  then have flag: "isEligible ?r \<longleftrightarrow>
      (\<forall>c \<in> set (eligibilityChecks ?r). passed c) \<and> deadlineStatus ?r \<noteq> ''Expired''"
    by (simp add: evaluate_def Let_def consistent_def list_all_iff)
  have names: "map criterion (eligibilityChecks ?r)
       = map criterion (eligibilityChecks (evaluate now' a' i' g' p' s))"
    by (simp add: trace_evaluate)
  have ex: "deadlineStatus ?r = ''Expired''
        \<longleftrightarrow> (\<exists>d. applicationDeadline s = Some d \<and> getTime d < getTime now)"
    by (rule expired_iff)
  have ac: "deadlineStatus ?r = ''Active''
        \<longleftrightarrow> \<not> (\<exists>d. applicationDeadline s = Some d \<and> getTime d < getTime now)"
    by (rule active_iff)
  have flag2: "isEligible ?r \<longleftrightarrow>
        (\<forall>c \<in> set (eligibilityChecks ?r). passed c)
        \<and> \<not> (\<exists>d. applicationDeadline s = Some d \<and> getTime d < getTime now)"
    using flag ex by blast
  have tr: "eligibilityChecks ?r = checks (runChecks a i g p (eligibilityCriteria s))"
    by (simp add: evaluate_def Let_def)
  show ?thesis
    by (intro conjI, rule flag, rule names, rule flag2, rule ex, rule ac,
        simp only: tr entries_runChecks)
qed

theorem evaluate_isEligible_iff_witness:
  "eligibilityChecks (evaluate sampleNow 20 (Num 500000) (Num 1) sampleProfile futureScholarship)
     = [\<lparr>criterion = ''CGPA'', passed = False\<rparr>,
        \<lparr>criterion = ''Family Income'', passed = True\<rparr>,
        \<lparr>criterion = ''Age'', passed = True\<rparr>]
   \<and> \<not> isEligible (evaluate sampleNow 20 (Num 500000) (Num 1) sampleProfile futureScholarship)
   \<and> deadlineStatus (evaluate sampleNow 20 (Num 500000) (Num 1) sampleProfile futureScholarship)
       = ''Active''
   \<and> eligibilityChecks (evaluate sampleNow 20 (Num 500000) (Num 9) sampleProfile futureScholarship)
     = [\<lparr>criterion = ''CGPA'', passed = True\<rparr>,
        \<lparr>criterion = ''Family Income'', passed = True\<rparr>,
        \<lparr>criterion = ''Age'', passed = True\<rparr>]
   \<and> isEligible (evaluate sampleNow 20 (Num 500000) (Num 9) sampleProfile futureScholarship)
   \<and> deadlineStatus (evaluate sampleNow 20 (Num 500000) (Num 9) sampleProfile futureScholarship)
       = ''Active''
   \<and> deadlineStatus (evaluate sampleNow 20 (Num 500000) (Num 9) sampleProfile sampleScholarship)
       = ''Expired''
   \<and> \<not> isEligible (evaluate sampleNow 20 (Num 500000) (Num 9) sampleProfile sampleScholarship)"
proof -
  have c: "eligibilityCriteria futureScholarship = sampleCriteria"
          "eligibilityCriteria sampleScholarship = sampleCriteria"
    by (simp_all add: futureScholarship_def sampleScholarship_def)
  have nd: "\<not> (\<exists>d. applicationDeadline futureScholarship = Some d
                    \<and> getTime d < getTime sampleNow)"
    by (simp add: futureScholarship_def sampleNow_def)
  have sd: "\<exists>d. applicationDeadline sampleScholarship = Some d \<and> getTime d < getTime sampleNow"
    by (simp add: sampleScholarship_def sampleNow_def)
  note low = evaluate_isEligible_iff
               [of sampleNow 20 "Num 500000" "Num 1" sampleProfile futureScholarship
                   sampleNow 20 "Num 500000" "Num 9" sampleProfile]
  note high = evaluate_isEligible_iff
               [of sampleNow 20 "Num 500000" "Num 9" sampleProfile futureScholarship
                   sampleNow 20 "Num 500000" "Num 1" sampleProfile]
  note past = evaluate_isEligible_iff
               [of sampleNow 20 "Num 500000" "Num 9" sampleProfile sampleScholarship
                   sampleNow 20 "Num 500000" "Num 1" sampleProfile]
  have l1: "eligibilityChecks
              (evaluate sampleNow 20 (Num 500000) (Num 1) sampleProfile futureScholarship)
     = [\<lparr>criterion = ''CGPA'', passed = False\<rparr>,
        \<lparr>criterion = ''Family Income'', passed = True\<rparr>,
        \<lparr>criterion = ''Age'', passed = True\<rparr>]"
    using low by (simp add: c sampleCriteria_def js_def)
  have h1: "eligibilityChecks
              (evaluate sampleNow 20 (Num 500000) (Num 9) sampleProfile futureScholarship)
     = [\<lparr>criterion = ''CGPA'', passed = True\<rparr>,
        \<lparr>criterion = ''Family Income'', passed = True\<rparr>,
        \<lparr>criterion = ''Age'', passed = True\<rparr>]"
    using high by (simp add: c sampleCriteria_def js_def)
  have l2: "\<not> isEligible
              (evaluate sampleNow 20 (Num 500000) (Num 1) sampleProfile futureScholarship)"
    using low l1 by simp
  have h2: "isEligible
              (evaluate sampleNow 20 (Num 500000) (Num 9) sampleProfile futureScholarship)"
    using high h1 nd by simp
  have l3: "deadlineStatus
              (evaluate sampleNow 20 (Num 500000) (Num 1) sampleProfile futureScholarship)
            = ''Active''"
    using low nd by blast
  have h3: "deadlineStatus
              (evaluate sampleNow 20 (Num 500000) (Num 9) sampleProfile futureScholarship)
            = ''Active''"
    using high nd by blast
  have p1: "deadlineStatus
              (evaluate sampleNow 20 (Num 500000) (Num 9) sampleProfile sampleScholarship)
            = ''Expired''"
    using past sd by blast
  have p2: "\<not> isEligible
              (evaluate sampleNow 20 (Num 500000) (Num 9) sampleProfile sampleScholarship)"
    using past sd by blast
  show ?thesis using l1 l2 l3 h1 h2 h3 p1 p2 by blast
qed

text \<open>
  C2. For every evaluation the match percentage is the share of passed checks among the
  emitted ones, times 100, rounded to the nearest integer (a tie going up), and an
  evaluation that emitted no check has the match percentage 100. Every evaluation emits
  at least one check, so the second part holds of every evaluation because none is of
  that kind.
\<close>

theorem matchPercentage_rounded_share:
  "(eligibilityChecks (evaluate now a i g p s) = []
      \<longrightarrow> matchPercentage (evaluate now a i g p s) = Num 100)
   \<and> eligibilityChecks (evaluate now a i g p s) \<noteq> []
   \<and> matchPercentage (evaluate now a i g p s)
       = matchPercentageOf (eligibilityChecks (evaluate now a i g p s))
   \<and> matchPercentage (evaluate now a i g p s)
       = Num (of_int (round
           (100 * of_nat (length (filter passed (eligibilityChecks (evaluate now a i g p s))))
              / of_nat (length (eligibilityChecks (evaluate now a i g p s))) :: rat)))"
proof -
  let ?cs = "eligibilityChecks (evaluate now a i g p s)"
  have ne: "?cs \<noteq> []" using length_trace [of now a i g p s] by auto
  have mp: "matchPercentage (evaluate now a i g p s) = matchPercentageOf ?cs"
    by (simp add: evaluate_def Let_def)
  show ?thesis using ne mp matchPercentageOf_nonempty [OF ne] by simp
qed

theorem matchPercentage_rounded_share_witness:
  "matchPercentage
      (evaluate sampleNow 20 (Num 5000000000) (Num 9) sampleProfile sampleScholarship) = Num 67"
proof -
  have c: "checks (runChecks 20 (Num 5000000000) (Num 9) sampleProfile sampleCriteria) =
     [\<lparr>criterion = ''CGPA'', passed = True\<rparr>,
      \<lparr>criterion = ''Family Income'', passed = False\<rparr>,
      \<lparr>criterion = ''Age'', passed = True\<rparr>]"
    by (simp add: check_defs sampleCriteria_def sampleProfile_def js_def)
  have e: "eligibilityChecks
      (evaluate sampleNow 20 (Num 5000000000) (Num 9) sampleProfile sampleScholarship) =
     [\<lparr>criterion = ''CGPA'', passed = True\<rparr>,
      \<lparr>criterion = ''Family Income'', passed = False\<rparr>,
      \<lparr>criterion = ''Age'', passed = True\<rparr>]"
    by (simp add: evaluate_def Let_def c sampleScholarship_def)
  have r: "round (200 / 3 :: rat) = 67" by code_simp
  let ?r = "evaluate sampleNow 20 (Num 5000000000) (Num 9) sampleProfile sampleScholarship"
  have "matchPercentage ?r
          = Num (of_int (round
              (100 * of_nat (length (filter passed (eligibilityChecks ?r)))
                 / of_nat (length (eligibilityChecks ?r)) :: rat)))"
    using matchPercentage_rounded_share
            [of sampleNow 20 "Num 5000000000" "Num 9" sampleProfile sampleScholarship]
    by blast
  then show ?thesis by (simp add: e r)
qed



text \<open>
  C4. For a user whose profile has \<^verbatim>\<open>isProfileComplete\<close> false, whatever the scholarship
  collection is, the response is the incomplete-profile one: the flag
  \<^verbatim>\<open>incompleteProfile\<close> is true and the list of eligible scholarships is empty. The
  response does not depend on the collection, so nothing is evaluated, and it is neither of
  the error responses of the route.
\<close>

theorem incomplete_profile_response:
  assumes "profile user = Some p" and "\<not> isProfileComplete p"
  shows "rank now user catalog
           = Incomplete ''Please complete your profile to check eligibility'' [] True
         \<and> incompleteProfile (rank now user catalog)
         \<and> eligibleScholarships (rank now user catalog) = []
         \<and> rank now user catalog = rank now user []
         \<and> rank now user catalog \<noteq> BadRequest \<and> rank now user catalog \<noteq> NotFound
         \<and> (e \<noteq> [] \<and> findOne e = Some user
              \<longrightarrow> checkEligibilityRoute now (Some e) findOne catalog
                    = Incomplete ''Please complete your profile to check eligibility'' [] True)"
  using assms by (simp add: rank_def checkEligibilityRoute_def)

theorem incomplete_profile_response_witness:
  "rank sampleNow \<lparr>name = js ''asha'', profile = Some (sampleProfile\<lparr>isProfileComplete := False\<rparr>)\<rparr>
      [sampleScholarship]
     = Incomplete ''Please complete your profile to check eligibility'' [] True"
proof -
  have a: "profile \<lparr>name = js ''asha'', profile = Some (sampleProfile\<lparr>isProfileComplete := False\<rparr>)\<rparr>
             = Some (sampleProfile\<lparr>isProfileComplete := False\<rparr>)"
    by simp
  have b: "\<not> isProfileComplete (sampleProfile\<lparr>isProfileComplete := False\<rparr>)"
    by simp
  show ?thesis
    using incomplete_profile_response [OF a b, of sampleNow "[sampleScholarship]"] by blast
qed

text \<open>
  C5. The criteria of the trace, in order, are CGPA, then Education Level when
  \<^verbatim>\<open>requiredEducation\<close> is not empty, then Field of Study when \<^verbatim>\<open>requiredFields\<close> is
  not empty, then Family Income, then Gender when \<^verbatim>\<open>allowedGenders\<close> is not empty and
  does not contain \<^verbatim>\<open>"All"\<close>, then Category when \<^verbatim>\<open>allowedCategories\<close> is not
  empty, then Age; an unconstrained criterion has no entry.
\<close>

theorem trace_is_fixed_subsequence:
  "map criterion (eligibilityChecks (evaluate now a i g p s)) =
     [''CGPA'']
     @ (if requiredEducation (eligibilityCriteria s) \<noteq> [] then [''Education Level''] else [])
     @ (if requiredFields (eligibilityCriteria s) \<noteq> [] then [''Field of Study''] else [])
     @ [''Family Income'']
     @ (if allowedGenders (eligibilityCriteria s) \<noteq> []
           \<and> js ''All'' \<notin> set (allowedGenders (eligibilityCriteria s))
        then [''Gender''] else [])
     @ (if allowedCategories (eligibilityCriteria s) \<noteq> [] then [''Category''] else [])
     @ [''Age'']"
  using trace_evaluate [of now a i g p s] by (simp add: emittedCriteria_def)

theorem trace_is_fixed_subsequence_witness:
  "map criterion (eligibilityChecks
      (evaluate sampleNow 20 (Num 500000) (Num 9) sampleProfile sampleScholarship))
   = [''CGPA'', ''Family Income'', ''Age'']"
  using trace_is_fixed_subsequence
          [of sampleNow 20 "Num 500000" "Num 9" sampleProfile sampleScholarship]
  by (simp add: sampleScholarship_def sampleCriteria_def)



text \<open>
  C7. The income normalizer on the four inputs of the specification.
\<close>

theorem normalizeIncome_examples:
  "parseIncome (Some (js ''300000-500000'')) = Num 400000
   \<and> parseIncome (Some (js ''5 lakh'')) = Num 500000
   \<and> parseIncome (Some (js ''2 crore'')) = Num 20000000
   \<and> parseIncome (Some (js [])) = Num 0"
  by (simp add: income_defs)

theorem normalizeIncome_examples_witness:
  "parseIncome (Some (js ''5 lakh'')) = Num 500000"
  using normalizeIncome_examples by blast

text \<open>
  C8. The income normalizer at an input with the word \<^verbatim>\<open>lakh\<close> and no digit: the
  branch for \<^verbatim>\<open>lakh\<close> multiplies the NaN of \<^verbatim>\<open>parseFloat\<close>, where the last branch
  of the function replaces it by \<open>0\<close>.
\<close>

theorem parseIncome_lakh_without_digits:
  "parseIncome (Some (js ''one lakh'')) = NaN
   \<and> \<not> isFinite (parseIncome (Some (js ''one lakh'')))
   \<and> parseIncome (Some (js ''one'')) = Num 0"
  by (simp add: income_defs isFinite_def)

text \<open>
  C9. The age is \<open>0\<close> without a date of birth; otherwise it is the difference of the
  calendar years, less one exactly when the current month and day come before those of the
  birth date. A birth date twenty years ago to the day gives 20, and one of the same year
  whose month and day are still to come gives 19; so does the first of January twenty
  years before tomorrow when today is the last day of December.
\<close>

theorem calculateAge_calendar:
  "calculateAge now None = 0
   \<and> calculateAge now (Some b) =
       getFullYear now - getFullYear b
       - (if getMonth now < getMonth b \<or> (getMonth now = getMonth b \<and> getDate now < getDate b)
          then 1 else 0)
   \<and> (getFullYear b = getFullYear now - 20 \<and> getMonth b = getMonth now \<and> getDate b = getDate now
        \<longrightarrow> calculateAge now (Some b) = 20)
   \<and> (getFullYear b = getFullYear now - 20
        \<and> (getMonth now < getMonth b \<or> (getMonth now = getMonth b \<and> getDate now < getDate b))
        \<longrightarrow> calculateAge now (Some b) = 19)
   \<and> (getMonth now = 11 \<and> getDate now = 31 \<and> getFullYear b = getFullYear now + 1 - 20
        \<and> getMonth b = 0 \<and> getDate b = 1
        \<longrightarrow> calculateAge now (Some b) = 19)"
  by (simp add: calculateAge_def Let_def)

theorem calculateAge_calendar_witness:
  "calculateAge sampleNow None = 0
   \<and> calculateAge sampleNow
        (Some \<lparr>getTime = 1162512000000, getFullYear = 2006, getMonth = 10, getDate = 3\<rparr>) = 20
   \<and> calculateAge sampleNow
        (Some \<lparr>getTime = 1162598400000, getFullYear = 2006, getMonth = 10, getDate = 4\<rparr>) = 19"
  using calculateAge_calendar [of sampleNow
          "\<lparr>getTime = 1162512000000, getFullYear = 2006, getMonth = 10, getDate = 3\<rparr>"]
        calculateAge_calendar [of sampleNow
          "\<lparr>getTime = 1162598400000, getFullYear = 2006, getMonth = 10, getDate = 4\<rparr>"]
  by (simp add: sampleNow_def)

text \<open>
  C10. Every trace has at least three entries, among them CGPA, Family Income and Age, so
  the divisor of the match percentage is not zero, and the match percentage is an integer
  from 0 to 100.
\<close>

theorem trace_has_three_checks:
  "3 \<le> length (eligibilityChecks (evaluate now a i g p s))
   \<and> eligibilityChecks (evaluate now a i g p s) \<noteq> []
   \<and> {''CGPA'', ''Family Income'', ''Age''}
        \<subseteq> criterion ` set (eligibilityChecks (evaluate now a i g p s))
   \<and> (\<exists>m::int. matchPercentage (evaluate now a i g p s) = Num (of_int m) \<and> 0 \<le> m \<and> m \<le> 100)"
proof -
  let ?cs = "eligibilityChecks (evaluate now a i g p s)"
  have len: "3 \<le> length ?cs" by (rule length_trace)
  then have ne: "?cs \<noteq> []" by auto
  have "set (map criterion ?cs) = set (emittedCriteria (eligibilityCriteria s))"
    by (simp only: trace_evaluate)
  then have names: "{''CGPA'', ''Family Income'', ''Age''} \<subseteq> criterion ` set ?cs"
    by (simp add: emittedCriteria_def)
  have mp: "matchPercentage (evaluate now a i g p s) = matchPercentageOf ?cs"
    by (simp add: evaluate_def Let_def)
  show ?thesis
    using len ne names matchPercentageOf_bounds [OF ne] by (simp only: mp) blast
qed

theorem trace_has_three_checks_witness:
  "length (eligibilityChecks
      (evaluate sampleNow 20 (Num 500000) (Num 9) sampleProfile sampleScholarship)) = 3
   \<and> matchPercentage
      (evaluate sampleNow 20 (Num 500000) (Num 9) sampleProfile sampleScholarship) = Num 100"
  using trace_has_three_checks
          [of sampleNow 20 "Num 500000" "Num 9" sampleProfile sampleScholarship]
  by (simp add: sample_evaluate)

end
